theory Spec2Isabelle
  imports Complex_Main "HOL-Library.Multiset" "HOL-Library.List_Lexorder"
begin

section \<open>Off-policy training loop with pseudo-labelled rewards\<close>

text \<open>
  A shallow embedding of \<^verbatim>\<open>stable_baselines3/common/off_policy_algorithm.py\<close>:
  the router \<^verbatim>\<open>_store_transition\<close>, the rollout loop \<^verbatim>\<open>collect_rollouts\<close> and the
  loop of \<^verbatim>\<open>learn\<close> with its pseudo-labelling refresh. Python floats are read as
  \<^typ>\<open>real\<close> (only comparison, equality and truncation to an integer are used), Python
  integers as \<^typ>\<open>int\<close>, and every exception is a value of \<open>error\<close>.
\<close>

subsection \<open>Errors\<close>

text \<open>
  \<open>Raised name\<close> stands for an exception raised inside a collaborator that is called from
  this file but defined elsewhere (\<^verbatim>\<open>utils\<close>, \<^verbatim>\<open>graphlearning\<close>, \<^verbatim>\<open>sklearn\<close>).
\<close>

datatype error = ZeroDivisionError | IndexError | KeyError | AssertionError | Raised string

definition bind_err :: "error + 'a \<Rightarrow> ('a \<Rightarrow> error + 'b) \<Rightarrow> error + 'b" where
  "bind_err m f = (case m of Inl e \<Rightarrow> Inl e | Inr x \<Rightarrow> f x)"

fun map_err :: "('a \<Rightarrow> error + 'b) \<Rightarrow> 'a list \<Rightarrow> error + 'b list" where
  "map_err f [] = Inr []"
| "map_err f (x # xs) =
     (case f x of
        Inl e \<Rightarrow> Inl e
      | Inr y \<Rightarrow> (case map_err f xs of Inl e \<Rightarrow> Inl e | Inr ys \<Rightarrow> Inr (y # ys)))"

subsection \<open>Transitions and experience stores\<close>

type_synonym vec = "real list"

record transition =
  observation :: vec
  next_observation :: vec
  action :: int
  reward :: real
  done_flag :: bool
  timeout_flag :: bool

text \<open>
  Modelled from the spec: \<^verbatim>\<open>ReplayBuffer\<close> (\<^verbatim>\<open>buffers.py\<close>) is not part of the source
  at hand. The store is the ring buffer of section 4.1: \<open>add\<close> writes at \<open>position\<close>,
  advances it modulo \<open>capacity\<close> and sets \<open>full\<close> on wrap-around; \<open>size\<close> is
  \<open>capacity\<close> when full and \<open>position\<close> otherwise; \<open>get_all\<close> returns the valid entries
  from index 0 to \<open>size - 1\<close>; \<open>reset\<close> returns to \<open>position = 0\<close>, \<open>full = False\<close>.
  One slot holds what one call of \<open>add\<close> stored.
\<close>

record store =
  capacity :: nat
  position :: nat
  full :: bool
  slots :: "transition list"

definition blank :: transition where
  "blank = \<lparr>observation = [], next_observation = [], action = 0, reward = 0,
            done_flag = False, timeout_flag = False\<rparr>"

definition new_store :: "nat \<Rightarrow> store" where
  "new_store n = \<lparr>capacity = n, position = 0, full = False, slots = replicate n blank\<rparr>"

definition add :: "store \<Rightarrow> transition \<Rightarrow> store" where
  "add s t =
     (let pos = (position s + 1) mod capacity s
      in s\<lparr>slots := (slots s)[position s := t], position := pos, full := (full s \<or> pos = 0)\<rparr>)"

definition size_store :: "store \<Rightarrow> nat" where
  "size_store s = (if full s then capacity s else position s)"

definition get_all :: "store \<Rightarrow> transition list" where
  "get_all s = take (size_store s) (slots s)"

definition reset :: "store \<Rightarrow> store" where
  "reset s = s\<lparr>position := 0, full := False\<rparr>"

text \<open>
  Modelled from the spec: \<^verbatim>\<open>ReplayBuffer.extend\<close> is not part of the source at hand.
  Following step 7 of section 4.5, it adds the given transitions one by one, each with its
  reward field replaced by the pseudo-reward at the same place of the last argument; the
  rows are paired position by position.
\<close>

definition extend_store :: "store \<Rightarrow> transition list \<Rightarrow> int list \<Rightarrow> store" where
  "extend_store s ts pseudo_rewards =
     foldl add s (map (\<lambda>(t, r). t\<lparr>reward := real_of_int r\<rparr>) (zip ts pseudo_rewards))"

subsection \<open>Hyperparameters and mutable state\<close>

datatype TrainFrequencyUnit = STEP | EPISODE

text \<open>
  The attributes that \<^verbatim>\<open>__init__\<close> stores and nothing changes afterwards are kept in
  \<open>config\<close>; \<open>prob_p\<close> is the attribute \<^verbatim>\<open>p\<close> and \<open>num_envs\<close> is \<^verbatim>\<open>env.num_envs\<close>.
\<close>

record config =
  prob_p :: real
  pseudo_mode :: bool
  ssl_freq :: int
  ssl_method :: string
  learning_starts :: int
  gradient_steps :: int
  batch_size :: int
  ssl_batch_size :: int
  buffer_size :: nat
  unlabeled_buffer_size :: nat
  ssl_buffer_size :: nat
  train_freq :: "int \<times> TrainFrequencyUnit"
  num_envs :: int

text \<open>
  The trace of a run: \<open>Refresh n\<close> marks that the branch of line 399 was entered at step
  count \<open>n\<close>; \<open>Train n k g\<close> is a call of \<^verbatim>\<open>self.train\<close> with \<open>g\<close> gradient steps,
  issued at step count \<open>n\<close> with \<open>k\<close> entries in the labeled store. The calls of
  \<^verbatim>\<open>logger.record\<close> are left out.
\<close>

datatype event = Refresh int | Train int nat int

record state =
  num_timesteps :: int
  last_obs :: vec
  replay_buffer :: store
  unlabeled_replay_buffer :: "store option"
  ssl_replay_buffer :: store
  trace :: "event list"

subsection \<open>Construction\<close>

text \<open>
  \<^verbatim>\<open>__init__\<close> (lines 83-169) assigns its arguments to attributes; it has no check and
  no \<^verbatim>\<open>raise\<close>. The call of the base class constructor receives none of \<^verbatim>\<open>p\<close>,
  \<^verbatim>\<open>ssl_freq\<close>, \<^verbatim>\<open>method\<close>.
\<close>

definition init :: "config \<Rightarrow> error + config" where
  "init args = Inr args"

text \<open>
  \<^verbatim>\<open>_setup_model\<close> (lines 195-258): the labeled store always, the pseudo store and the
  unlabeled store only in pseudo mode. Outside pseudo mode the attribute
  \<^verbatim>\<open>ssl_replay_buffer\<close> does not exist; the model keeps an empty store of capacity 0
  there, which \<^verbatim>\<open>learn\<close> never touches in that mode.
\<close>

definition setup_model :: "config \<Rightarrow> vec \<Rightarrow> state" where
  "setup_model c first_obs =
     \<lparr>num_timesteps = 0, last_obs = first_obs,
      replay_buffer = new_store (buffer_size c),
      unlabeled_replay_buffer =
        (if pseudo_mode c then Some (new_store (unlabeled_buffer_size c)) else None),
      ssl_replay_buffer = new_store (if pseudo_mode c then ssl_buffer_size c else 0),
      trace = []\<rparr>"

subsection \<open>The router\<close>

text \<open>
  One step of the vectorised environment, as \<^verbatim>\<open>collect_rollouts\<close> sees it: the action
  stored in the buffer, the results of \<^verbatim>\<open>env.step\<close>, the entries
  \<^verbatim>\<open>terminal_observation\<close> and \<^verbatim>\<open>TimeLimit.truncated\<close> of \<^verbatim>\<open>infos\<close>, the value
  returned by \<^verbatim>\<open>np.random.random()\<close> in \<^verbatim>\<open>_store_transition\<close> and the value returned
  by \<^verbatim>\<open>callback.on_step()\<close>.
\<close>

record env_step =
  buffer_action :: int
  new_obs :: vec
  step_reward :: real
  step_done :: bool
  terminal_observation :: "vec option"
  truncated :: bool
  draw :: real
  on_step :: bool

datatype target = Labeled | Unlabeled | Discarded

text \<open>
  The operation \<^verbatim>\<open>route(transition, p) -> target\<close> in the words of section 4.2 of the
  spec, for draw \<open>u\<close>; the code itself is \<open>store_transition\<close> below.
\<close>

definition route :: "real \<Rightarrow> real \<Rightarrow> bool \<Rightarrow> target" where
  "route u p has_unlabeled =
     (if u < p then Labeled else if has_unlabeled then Unlabeled else Discarded)"

text \<open>
  Lines 645-671 without \<^verbatim>\<open>VecNormalize\<close>: the stored observation is \<^verbatim>\<open>_last_obs\<close>, and
  the next observation is the terminal observation when the episode ended and
  \<^verbatim>\<open>infos\<close> has one. The timeout flag is the entry \<^verbatim>\<open>TimeLimit.truncated\<close> of
  \<^verbatim>\<open>infos\<close>, which the store reads when the transition is added.
\<close>

definition make_transition :: "vec \<Rightarrow> env_step \<Rightarrow> transition" where
  "make_transition prev_obs e =
     \<lparr>observation = prev_obs,
      next_observation =
        (case terminal_observation e of
           Some term_obs \<Rightarrow> (if step_done e then term_obs else new_obs e)
         | None \<Rightarrow> new_obs e),
      action = buffer_action e, reward = step_reward e,
      done_flag = step_done e, timeout_flag = truncated e\<rparr>"

definition store_transition :: "config \<Rightarrow> state \<Rightarrow> env_step \<Rightarrow> state" where
  "store_transition c s e =
     (let t = make_transition (last_obs s) e;
          s' =
            (if draw e < prob_p c then s\<lparr>replay_buffer := add (replay_buffer s) t\<rparr>
             else (case unlabeled_replay_buffer s of
                     Some ub \<Rightarrow> s\<lparr>unlabeled_replay_buffer := Some (add ub t)\<rparr>
                   | None \<Rightarrow> s))
      in s'\<lparr>last_obs := new_obs e\<rparr>)"

subsection \<open>Collecting a rollout\<close>

text \<open>
  Modelled from the spec: \<^verbatim>\<open>should_collect_more_steps\<close> (\<^verbatim>\<open>utils.py\<close>) is not part of
  the source at hand. Section 4.6: collection runs for the configured number of
  environment steps or of whole episodes.
\<close>

definition should_collect_more_steps :: "int \<times> TrainFrequencyUnit \<Rightarrow> int \<Rightarrow> int \<Rightarrow> bool" where
  "should_collect_more_steps tf num_collected_steps num_collected_episodes =
     (case snd tf of
        STEP \<Rightarrow> num_collected_steps < fst tf
      | EPISODE \<Rightarrow> num_collected_episodes < fst tf)"

text \<open>
  \<open>RolloutReturn episode_timesteps n_episodes continue_training\<close> is the value returned;
  \<open>RolloutRaised\<close> is a failed assertion; \<open>RolloutCut\<close> says that the recorded
  environment steps ran out before the rollout ended.
\<close>

datatype rollout = RolloutReturn int int bool | RolloutRaised error | RolloutCut

text \<open>
  The loop of lines 747-799. The environment, the exploration policy, the random
  generator and the callback are outside this file: the list holds what they deliver,
  step by step. Episode statistics, noise resets and the log written by
  \<^verbatim>\<open>_dump_logs\<close> are left out; one recorded step carries one transition, and the
  step count advances by the number of environments.
\<close>

fun collect_loop ::
  "config \<Rightarrow> state \<Rightarrow> int \<Rightarrow> int \<Rightarrow> env_step list \<Rightarrow> rollout \<times> state \<times> env_step list" where
  "collect_loop c s num_collected_steps num_collected_episodes [] =
     (if should_collect_more_steps (train_freq c) num_collected_steps num_collected_episodes
      then (RolloutCut, s, [])
      else (RolloutReturn (num_collected_steps * num_envs c) num_collected_episodes True, s, []))"
| "collect_loop c s num_collected_steps num_collected_episodes (e # rest) =
     (if should_collect_more_steps (train_freq c) num_collected_steps num_collected_episodes
      then
        (let s1 = s\<lparr>num_timesteps := num_timesteps s + num_envs c\<rparr>;
             steps1 = num_collected_steps + 1
         in if \<not> on_step e
            then (RolloutReturn (steps1 * num_envs c) num_collected_episodes False, s1, rest)
            else collect_loop c (store_transition c s1 e) steps1
                   (if step_done e then num_collected_episodes + 1 else num_collected_episodes)
                   rest)
      else (RolloutReturn (num_collected_steps * num_envs c) num_collected_episodes True,
            s, e # rest))"

definition collect_rollouts :: "config \<Rightarrow> state \<Rightarrow> env_step list \<Rightarrow> rollout \<times> state \<times> env_step list" where
  "collect_rollouts c s evs =
     (if \<not> fst (train_freq c) > 0 then (RolloutRaised AssertionError, s, evs)
      else if num_envs c > 1 \<and> snd (train_freq c) \<noteq> STEP then (RolloutRaised AssertionError, s, evs)
      else collect_loop c s 0 0 evs)"

subsection \<open>State-action features and deduplication\<close>

text \<open>
  \<^verbatim>\<open>gl.utils.labels_to_onehot(labels, k)\<close> of the \<^verbatim>\<open>graphlearning\<close> package fills a
  zero matrix of \<open>k\<close> columns by \<^verbatim>\<open>onehot[range(n), labels] = 1\<close>. The index rule of
  numpy is written out: a column index \<open>a\<close> with \<open>-k \<le> a < 0\<close> counts from the end, and
  one outside \<open>-k \<le> a < k\<close> raises \<^verbatim>\<open>IndexError\<close>.
\<close>

definition onehot_row :: "nat \<Rightarrow> int \<Rightarrow> error + vec" where
  "onehot_row k a =
     (let j = (if a < 0 then int k + a else a)
      in if 0 \<le> j \<and> j < int k then Inr ((replicate k 0)[nat j := 1]) else Inl IndexError)"

definition labels_to_onehot :: "int list \<Rightarrow> nat \<Rightarrow> error + vec list" where
  "labels_to_onehot labels k = map_err (onehot_row k) labels"

text \<open>Lines 421-425: each observation followed by the one-hot row of its action.\<close>

definition state_action :: "transition list \<Rightarrow> error + vec list" where
  "state_action replay_data =
     bind_err (labels_to_onehot (map action replay_data) 4)
       (\<lambda>actions_1hot. Inr (map (\<lambda>(ob, row). ob @ row) (zip (map observation replay_data) actions_1hot)))"

text \<open>
  \<^verbatim>\<open>np.unique(X, axis=0, return_index=True)\<close> returns, for the distinct rows in ascending
  (lexicographic) order, the index of the first occurrence of each.
\<close>

definition first_occurrences :: "'a list \<Rightarrow> nat list" where
  "first_occurrences X = filter (\<lambda>i. X ! i \<notin> set (take i X)) [0..<length X]"

definition np_unique_index :: "('a::linorder) list \<Rightarrow> nat list" where
  "np_unique_index X = sort_key (\<lambda>i. X ! i) (first_occurrences X)"

text \<open>Lines 442-443: the indices of \<^verbatim>\<open>np.unique\<close>, passed through \<^verbatim>\<open>np.sort\<close>.\<close>

definition unique_ind :: "('a::linorder) list \<Rightarrow> nat list" where
  "unique_ind X = sort (np_unique_index X)"

text \<open>Indexing an array with an index array whose entries are all in range.\<close>

definition take_rows :: "'a list \<Rightarrow> nat list \<Rightarrow> 'a list" where
  "take_rows X ind = map (\<lambda>i. X ! i) ind"

text \<open>Lines 442-460: the rows handed to \<^verbatim>\<open>construct_connected_W\<close>.\<close>

definition X_prime_unique :: "vec list \<Rightarrow> vec list \<Rightarrow> vec list" where
  "X_prime_unique unlabeled_state_action labeled_state_action =
     (let unique_unlabeled_sa = take_rows unlabeled_state_action (unique_ind unlabeled_state_action);
          unique_labeled_sa = take_rows labeled_state_action (unique_ind labeled_state_action);
          X_prime = unique_unlabeled_sa @ unique_labeled_sa;
          concatenated_unique_ind = unique_ind X_prime
      in take_rows X_prime concatenated_unique_ind)"

text \<open>Line 466: \<^verbatim>\<open>np.arange(unique_labeled_sa.shape[0])\<close>.\<close>

definition train_ind :: "vec list \<Rightarrow> nat list" where
  "train_ind labeled_state_action =
     [0..<length (take_rows labeled_state_action (unique_ind labeled_state_action))]"

text \<open>
  The words of section 4.3 of the spec: deduplication that keeps the first occurrence of
  every row, in order.
\<close>

primrec dedup_first :: "'a list \<Rightarrow> 'a list" where
  "dedup_first [] = []"
| "dedup_first (x # xs) = x # filter (\<lambda>y. y \<noteq> x) (dedup_first xs)"

definition build_nodes_spec :: "vec list \<Rightarrow> vec list \<Rightarrow> vec list" where
  "build_nodes_spec unlabeled_features labeled_features =
     dedup_first (dedup_first unlabeled_features @ dedup_first labeled_features)"

text \<open>
  The one-hot encoding of an action among \<open>k\<close> classes, as a definition of its own: the
  entry at place \<open>a\<close> is one and every other entry is zero.
\<close>

definition onehot_spec :: "nat \<Rightarrow> int \<Rightarrow> vec" where
  "onehot_spec k a = map (\<lambda>j. if int j = a then 1 else 0) [0..<k]"

subsection \<open>The refresh cycle\<close>

text \<open>
  The collaborators of the cycle that live outside this file, each able to raise:
  \<^verbatim>\<open>construct_connected_W\<close>, \<^verbatim>\<open>rewards_to_labels\<close> (its first result, the labels, and
  its fourth, the dictionary from label to reward) and \<^verbatim>\<open>infer_rewards_SSL\<close> (its first
  result) from \<^verbatim>\<open>utils\<close>, and \<^verbatim>\<open>f1_score\<close> from \<^verbatim>\<open>sklearn\<close>. The graph they
  exchange has the abstract type \<open>'w\<close>.
\<close>

record 'w collaborators =
  construct_connected_W :: "vec list \<Rightarrow> error + 'w"
  rewards_to_labels :: "int list \<Rightarrow> error + (int list \<times> (int \<times> int) list)"
  infer_rewards_SSL :: "string \<Rightarrow> 'w \<Rightarrow> int list \<Rightarrow> nat list \<Rightarrow> error + int list"
  f1_score :: "int list \<Rightarrow> int list \<Rightarrow> error + real"

text \<open>\<^verbatim>\<open>ndarray.astype(int)\<close> on floats truncates towards zero.\<close>

definition astype_int :: "real \<Rightarrow> int" where
  "astype_int r = (if 0 \<le> r then \<lfloor>r\<rfloor> else \<lceil>r\<rceil>)"

text \<open>Line 487: \<^verbatim>\<open>l2r[l.item()]\<close>, a dictionary lookup.\<close>

definition l2r_lookup :: "(int \<times> int) list \<Rightarrow> int \<Rightarrow> error + int" where
  "l2r_lookup l2r l = (case map_of l2r l of None \<Rightarrow> Inl KeyError | Some r \<Rightarrow> Inr r)"

text \<open>\<^verbatim>\<open>np.delete(arr, ind)\<close>: an index beyond the end raises.\<close>

definition np_delete :: "'a list \<Rightarrow> nat list \<Rightarrow> error + 'a list" where
  "np_delete arr ind =
     (if list_all (\<lambda>i. i < length arr) ind
      then Inr (take_rows arr (filter (\<lambda>i. i \<notin> set ind) [0..<length arr]))
      else Inl IndexError)"

text \<open>
  Lines 421-500, from the two snapshots to the arguments of \<^verbatim>\<open>extend\<close>: the indices
  \<^verbatim>\<open>unique_unlabeled_ind\<close>, the pseudo-rewards left by \<^verbatim>\<open>np.delete\<close>, and the score.
\<close>

definition refresh_compute ::
  "'w collaborators \<Rightarrow> string \<Rightarrow> transition list \<Rightarrow> transition list
     \<Rightarrow> error + (nat list \<times> int list \<times> real)" where
  "refresh_compute ext meth labeled_replay_data unlabeled_replay_data =
     bind_err (state_action unlabeled_replay_data) (\<lambda>unlabeled_state_action.
     bind_err (state_action labeled_replay_data) (\<lambda>labeled_state_action.
       let labeled_rewards = map reward labeled_replay_data;
           unlabeled_rewards = map reward unlabeled_replay_data;
           unique_unlabeled_ind = unique_ind unlabeled_state_action;
           unique_unlabeled_rewards = take_rows unlabeled_rewards unique_unlabeled_ind;
           unique_labeled_ind = unique_ind labeled_state_action;
           unique_labeled_rewards = take_rows labeled_rewards unique_labeled_ind;
           X_prime = take_rows unlabeled_state_action unique_unlabeled_ind
                     @ take_rows labeled_state_action unique_labeled_ind;
           concatenated_unique_ind = unique_ind X_prime
       in
     bind_err (construct_connected_W ext (X_prime_unique unlabeled_state_action labeled_state_action)) (\<lambda>W.
     bind_err (rewards_to_labels ext (map astype_int unique_labeled_rewards)) (\<lambda>(train_labels, l2r).
       let true_rewards =
             map astype_int
               (take_rows (unique_labeled_rewards @ unique_unlabeled_rewards) concatenated_unique_ind)
       in
     bind_err (infer_rewards_SSL ext meth W train_labels (train_ind labeled_state_action)) (\<lambda>pred_labels.
     bind_err (map_err (l2r_lookup l2r) pred_labels) (\<lambda>pseudo_rewards.
     bind_err (np_delete pseudo_rewards (train_ind labeled_state_action)) (\<lambda>pseudo_rest.
     bind_err (np_delete true_rewards (train_ind labeled_state_action)) (\<lambda>true_rest.
     bind_err (f1_score ext pseudo_rest true_rest) (\<lambda>f1.
       Inr (unique_unlabeled_ind, pseudo_rest, f1))))))))))"

text \<open>
  Lines 402-514. The pseudo store is reset first and extended last; an exception in
  between leaves the state as it is at that moment. Reading the size of a missing
  unlabeled store raises \<^verbatim>\<open>AttributeError\<close>.
\<close>

definition refresh :: "'w collaborators \<Rightarrow> config \<Rightarrow> state \<Rightarrow> error option \<times> state" where
  "refresh ext c s =
     (let s1 = s\<lparr>ssl_replay_buffer := reset (ssl_replay_buffer s),
                 trace := trace s @ [Refresh (num_timesteps s)]\<rparr>
      in case unlabeled_replay_buffer s1 of
           None \<Rightarrow> (Some (Raised ''AttributeError''), s1)
         | Some ub \<Rightarrow>
             (case refresh_compute ext (ssl_method c) (get_all (replay_buffer s1)) (get_all ub) of
                Inl e \<Rightarrow> (Some e, s1)
              | Inr (unique_unlabeled_ind, pseudo_rest, f1) \<Rightarrow>
                  (None, s1\<lparr>ssl_replay_buffer :=
                              extend_store (ssl_replay_buffer s1)
                                (take_rows (get_all ub) unique_unlabeled_ind) pseudo_rest\<rparr>)))"

subsection \<open>The loop of learn\<close>

text \<open>
  Line 399: \<^verbatim>\<open>self.pseudo_mode and self.num_timesteps % self.ssl_freq == 0 and
  self.num_timesteps > self.learning_starts // 2\<close>. Python evaluates from the left and
  stops at the first false operand; \<^verbatim>\<open>%\<close> by zero raises. Python's \<^verbatim>\<open>%\<close> and \<^verbatim>\<open>//\<close>
  round towards minus infinity, as \<open>mod\<close> and \<open>div\<close> on \<^typ>\<open>int\<close> do.
\<close>

definition refresh_due :: "config \<Rightarrow> state \<Rightarrow> error + bool" where
  "refresh_due c s =
     (if \<not> pseudo_mode c then Inr False
      else if ssl_freq c = 0 then Inl ZeroDivisionError
      else Inr (num_timesteps s mod ssl_freq c = 0 \<and> num_timesteps s > learning_starts c div 2))"

text \<open>Lines 518-525; the call of \<^verbatim>\<open>self.train\<close> is entered in the trace.\<close>

definition train_phase :: "config \<Rightarrow> int \<Rightarrow> state \<Rightarrow> state" where
  "train_phase c episode_timesteps s =
     (if num_timesteps s > 0 \<and> num_timesteps s > learning_starts c
      then (let g = (if gradient_steps c \<ge> 0 then gradient_steps c else episode_timesteps)
            in if g > 0
               then s\<lparr>trace := trace s @ [Train (num_timesteps s) (size_store (replay_buffer s)) g]\<rparr>
               else s)
      else s)"

text \<open>
  How one pass of the loop body ends: \<open>Continue\<close> goes back to the loop test, \<open>Stopped\<close>
  is the \<^verbatim>\<open>break\<close> of line 397, \<open>Failed\<close> is an exception leaving \<^verbatim>\<open>learn\<close>,
  \<open>Pending\<close> says that the recorded environment steps ran out, and \<open>Finished\<close> is the
  normal end of the loop.
\<close>

datatype status = Continue | Stopped | Failed error | Pending | Finished

text \<open>Lines 385-525, one pass of the body of the \<^verbatim>\<open>while\<close> loop.\<close>

definition learn_body ::
  "'w collaborators \<Rightarrow> config \<Rightarrow> state \<Rightarrow> env_step list \<Rightarrow> status \<times> state \<times> env_step list" where
  "learn_body ext c s evs =
     (case collect_rollouts c s evs of
        (RolloutRaised e, s1, evs1) \<Rightarrow> (Failed e, s1, evs1)
      | (RolloutCut, s1, evs1) \<Rightarrow> (Pending, s1, evs1)
      | (RolloutReturn episode_timesteps n_episodes continue_training, s1, evs1) \<Rightarrow>
          if \<not> continue_training then (Stopped, s1, evs1)
          else (case refresh_due c s1 of
                  Inl e \<Rightarrow> (Failed e, s1, evs1)
                | Inr due \<Rightarrow>
                    (case (if due then refresh ext c s1 else (None, s1)) of
                       (Some e, s2) \<Rightarrow> (Failed e, s2, evs1)
                     | (None, s2) \<Rightarrow> (Continue, train_phase c episode_timesteps s2, evs1))))"

text \<open>
  Lines 378-527. A pass that continues has used up at least one recorded environment
  step (lemma \<open>learn_body_consumes\<close> below), so the test on the lengths, which makes the
  recursion end, is always passed; \<open>learn_loop_unfold\<close> gives the loop without it.
\<close>

function learn_loop ::
  "'w collaborators \<Rightarrow> config \<Rightarrow> int \<Rightarrow> state \<Rightarrow> env_step list \<Rightarrow> status \<times> state \<times> env_step list" where
  "learn_loop ext c total_timesteps s evs =
     (if num_timesteps s < total_timesteps
      then (let r = learn_body ext c s evs
            in if fst r = Continue \<and> length (snd (snd r)) < length evs
               then learn_loop ext c total_timesteps (fst (snd r)) (snd (snd r))
               else r)
      else (Finished, s, evs))"
  by pat_completeness auto
termination
  by (relation "measure (\<lambda>(ext, c, total_timesteps, s, evs). length evs)")
     (auto simp: split_beta)

declare learn_loop.simps [simp del]

subsection \<open>Concrete runs\<close>

text \<open>
  A small configuration, environment steps with a one-dimensional observation, and
  collaborators that follow the contracts of sections 4.3 and 4.4 of the spec: the builder
  refuses an empty node set, the labels are the integer rewards themselves, and the
  engine returns one label per node, the seed at a seeded node and the first seed
  elsewhere, refusing an empty seed set. The score is the share of agreeing places.
\<close>

definition demo_config :: config where
  "demo_config =
     \<lparr>prob_p = 1 / 2, pseudo_mode = True, ssl_freq = 4, ssl_method = ''Laplace'',
      learning_starts = 0, gradient_steps = 1, batch_size = 256, ssl_batch_size = 512,
      buffer_size = 4, unlabeled_buffer_size = 4, ssl_buffer_size = 4,
      train_freq = (1, STEP), num_envs = 1\<rparr>"

definition demo_step :: "real \<Rightarrow> int \<Rightarrow> real \<Rightarrow> real \<Rightarrow> env_step" where
  "demo_step ob a r u =
     \<lparr>buffer_action = a, new_obs = [ob], step_reward = r, step_done = False,
      terminal_observation = None, truncated = False, draw = u, on_step = True\<rparr>"

definition demo_steps :: "env_step list" where
  "demo_steps =
     [demo_step 1 0 0 (1 / 10), demo_step 2 1 1 (1 / 10),
      demo_step 3 2 0 (9 / 10), demo_step 4 3 1 (9 / 10),
      demo_step 5 0 0 (1 / 10)]"

definition demo_infer :: "string \<Rightarrow> vec list \<Rightarrow> int list \<Rightarrow> nat list \<Rightarrow> error + int list" where
  "demo_infer meth W train_labels train_indices =
     (case train_labels of
        [] \<Rightarrow> Inl (Raised ''NoLabeledSeedError'')
      | l # ls \<Rightarrow>
          Inr (map (\<lambda>i. case map_of (zip train_indices train_labels) i of
                           Some seed \<Rightarrow> seed
                         | None \<Rightarrow> l)
                 [0..<length W]))"

definition demo_ext :: "(vec list) collaborators" where
  "demo_ext =
     \<lparr>construct_connected_W =
        (\<lambda>X. if X = [] then Inl (Raised ''InsufficientDataError'') else Inr X),
      rewards_to_labels = (\<lambda>rewards. Inr (rewards, map (\<lambda>r. (r, r)) rewards)),
      infer_rewards_SSL = demo_infer,
      f1_score =
        (\<lambda>a b. Inr (if a = [] then 0
                     else real (length (filter (\<lambda>(x, y). x = y) (zip a b))) / real (length a)))\<rparr>"

text \<open>The same collaborators with an engine that reports a singular system.\<close>

definition failing_ext :: "(vec list) collaborators" where
  "failing_ext =
     demo_ext\<lparr>infer_rewards_SSL :=
       (\<lambda>meth W train_labels train_indices. Inl (Raised ''NumericalInstabilityError''))\<rparr>"


subsection \<open>What a trace entry says\<close>

text \<open>
  The conditions under which lines 399 and 518-525 let an entry be written, for a run
  that started at step count \<open>n0\<close>: the count at which it is written is \<open>n0\<close> plus a
  positive multiple of the number of environments.
\<close>

fun entry_ok :: "config \<Rightarrow> int \<Rightarrow> event \<Rightarrow> bool" where
  "entry_ok c n0 (Refresh n) =
     (pseudo_mode c \<and> ssl_freq c \<noteq> 0 \<and> n mod ssl_freq c = 0 \<and> n > learning_starts c div 2 \<and>
      (\<exists>k>0. n = n0 + int k * num_envs c))"
| "entry_ok c n0 (Train n labeled_size g) =
     (n > learning_starts c \<and> n > 0 \<and> g > 0 \<and> (\<exists>k>0. n = n0 + int k * num_envs c))"

text \<open>
  The state that the first three steps of \<open>demo_steps\<close> leave behind, but for the
  trace (lemma \<open>demo_state_reached\<close>): two labeled transitions and one unlabeled one.
  Then the two environment steps that follow, and the state after the first of them,
  when the fourth step has gone to the unlabeled store.
\<close>

definition demo_row :: "real \<Rightarrow> int \<Rightarrow> real \<Rightarrow> transition" where
  "demo_row ob a r =
     \<lparr>observation = [ob], next_observation = [ob + 1], action = a, reward = r,
      done_flag = False, timeout_flag = False\<rparr>"

definition demo_labeled :: "transition list" where
  "demo_labeled = [demo_row 0 0 0, demo_row 1 1 1]"

definition demo_unlabeled :: "transition list" where
  "demo_unlabeled = [demo_row 2 2 0, demo_row 3 3 1]"

definition demo_state :: state where
  "demo_state =
     \<lparr>num_timesteps = 3, last_obs = [3],
      replay_buffer = foldl add (new_store 4) demo_labeled,
      unlabeled_replay_buffer = Some (foldl add (new_store 4) [demo_row 2 2 0]),
      ssl_replay_buffer = new_store 4, trace = []\<rparr>"

definition demo_tail :: "env_step list" where
  "demo_tail = [demo_step 4 3 1 (9 / 10), demo_step 5 0 0 (1 / 10)]"

definition demo_state4 :: state where
  "demo_state4 =
     demo_state\<lparr>num_timesteps := 4, last_obs := [4],
       unlabeled_replay_buffer := Some (foldl add (new_store 4) demo_unlabeled)\<rparr>"

text \<open>
  Three more configurations: one where no transition is ever labeled and learning starts
  after one step, one with \<open>p = 1\<close> and a refresh after every step together with the
  state it reaches after its first step, and one whose probability, cadence and method
  name are all invalid.
\<close>

definition starved_config :: config where
  "starved_config = demo_config\<lparr>prob_p := 0, learning_starts := 1\<rparr>"



definition invalid_config :: config where
  "invalid_config = demo_config\<lparr>prob_p := 2, ssl_freq := 0, ssl_method := ''no such method''\<rparr>"

section \<open>Properties\<close>

subsection \<open>Deduplication through sorted first-occurrence indices\<close>

lemma first_occurrences_snoc:
  "first_occurrences (xs @ [x]) = first_occurrences xs @ (if x \<in> set xs then [] else [length xs])"
  by (auto simp: first_occurrences_def nth_append intro!: filter_cong)

lemma sorted_first_occurrences: "sorted (first_occurrences X)"
  by (simp add: first_occurrences_def sorted_wrt_filter)

lemma unique_ind_eq: "unique_ind X = first_occurrences X"
  unfolding unique_ind_def np_unique_index_def
  by (rule properties_for_sort) (simp_all add: sorted_first_occurrences)

lemma dedup_first_snoc:
  "dedup_first (xs @ [x]) = dedup_first xs @ (if x \<in> set xs then [] else [x])"
  by (induction xs) auto

lemma set_dedup_first: "set (dedup_first xs) = set xs"
  by (induction xs) auto

lemma take_rows_first_occurrences: "take_rows X (first_occurrences X) = dedup_first X"
proof (induction X rule: rev_induct)
  case Nil
  show ?case by (simp add: take_rows_def first_occurrences_def)
next
  case (snoc x xs)
  have "take_rows (xs @ [x]) (first_occurrences xs) = take_rows xs (first_occurrences xs)"
    unfolding take_rows_def
    by (rule map_cong) (auto simp: first_occurrences_def nth_append)
  with snoc show ?case
    by (simp add: first_occurrences_snoc dedup_first_snoc take_rows_def)
qed

lemma unique_rows_eq: "take_rows X (unique_ind X) = dedup_first X"
  by (simp add: unique_ind_eq take_rows_first_occurrences)

text \<open>
  Claim C8. The rows selected from the unlabeled features and from the labeled features
  are each the first-occurrence deduplication of that set, and the node sequence handed
  to the graph builder is the first-occurrence deduplication of the unique unlabeled rows
  followed by the unique labeled rows.
\<close>

theorem graph_nodes_dedup_order:
  "take_rows U (unique_ind U) = dedup_first U \<and>
   take_rows L (unique_ind L) = dedup_first L \<and>
   X_prime_unique U L = build_nodes_spec U L"
  by (simp add: X_prime_unique_def build_nodes_spec_def Let_def unique_rows_eq)

subsection \<open>Routing\<close>

text \<open>
  Claim C4. For every step and every \<open>p\<close>, the target is the labeled store exactly when
  the draw is below \<open>p\<close>; a transition for the labeled store is added there and the
  unlabeled store is untouched; otherwise it is added to the unlabeled store, when there
  is one, and the labeled store is untouched, or it is dropped and both stay as they
  were. The pseudo store never receives it.
\<close>

theorem store_transition_exactly_one:
  "(route (draw e) (prob_p c) (unlabeled_replay_buffer s \<noteq> None) = Labeled \<longleftrightarrow> draw e < prob_p c) \<and>
   (case route (draw e) (prob_p c) (unlabeled_replay_buffer s \<noteq> None) of
      Labeled \<Rightarrow>
        replay_buffer (store_transition c s e) = add (replay_buffer s) (make_transition (last_obs s) e) \<and>
        unlabeled_replay_buffer (store_transition c s e) = unlabeled_replay_buffer s
    | Unlabeled \<Rightarrow>
        replay_buffer (store_transition c s e) = replay_buffer s \<and>
        (\<exists>ub. unlabeled_replay_buffer s = Some ub \<and>
              unlabeled_replay_buffer (store_transition c s e) =
                Some (add ub (make_transition (last_obs s) e)))
    | Discarded \<Rightarrow>
        replay_buffer (store_transition c s e) = replay_buffer s \<and>
        unlabeled_replay_buffer s = None \<and>
        unlabeled_replay_buffer (store_transition c s e) = None) \<and>
   ssl_replay_buffer (store_transition c s e) = ssl_replay_buffer s"
  by (cases "unlabeled_replay_buffer s") (auto simp: route_def store_transition_def Let_def)

theorem store_transition_exactly_one_witness:
  "route (9 / 10) (1 / 2) True = Unlabeled \<and>
   replay_buffer (store_transition demo_config (setup_model demo_config [0]) (demo_step 1 0 0 (9 / 10)))
     = new_store 4 \<and>
   unlabeled_replay_buffer (store_transition demo_config (setup_model demo_config [0]) (demo_step 1 0 0 (9 / 10)))
     = Some (add (new_store 4) (make_transition [0] (demo_step 1 0 0 (9 / 10))))"
  using store_transition_exactly_one [of "demo_step 1 0 0 (9 / 10)" demo_config "setup_model demo_config [0]"]
  by (simp add: route_def demo_step_def demo_config_def setup_model_def)

subsection \<open>One-hot encoding of actions\<close>












subsection \<open>Rollouts, the loop body and the loop\<close>

lemma store_transition_keeps:
  "trace (store_transition c s e) = trace s"
  "ssl_replay_buffer (store_transition c s e) = ssl_replay_buffer s"
  "num_timesteps (store_transition c s e) = num_timesteps s"
  by (auto simp: store_transition_def Let_def split: option.splits)

lemma collect_loop_props:
  "collect_loop c s st ep evs = (r, s1, evs1) \<Longrightarrow>
   trace s1 = trace s \<and> ssl_replay_buffer s1 = ssl_replay_buffer s \<and>
   (\<exists>k. num_timesteps s1 = num_timesteps s + int k * num_envs c \<and>
        length evs = length evs1 + k \<and>
        (r \<noteq> RolloutCut \<and> should_collect_more_steps (train_freq c) st ep \<longrightarrow> 0 < k))"
proof (induction evs arbitrary: s st ep)
  case Nil
  then show ?case by (auto split: if_splits)
next
  case (Cons e rest)
  show ?case
  proof (cases "should_collect_more_steps (train_freq c) st ep")
    case False
    with Cons.prems show ?thesis by auto
  next
    case True
    show ?thesis
    proof (cases "on_step e")
      case False
      with True Cons.prems have "r = RolloutReturn ((st + 1) * num_envs c) ep False"
        "s1 = s\<lparr>num_timesteps := num_timesteps s + num_envs c\<rparr>" "evs1 = rest"
        by (auto simp: Let_def)
      then show ?thesis by (auto intro!: exI [of _ 1])
    next
      case on: True
      let ?s2 = "store_transition c (s\<lparr>num_timesteps := num_timesteps s + num_envs c\<rparr>) e"
      from True on Cons.prems
      have "collect_loop c ?s2 (st + 1) (if step_done e then ep + 1 else ep) rest = (r, s1, evs1)"
        by (simp add: Let_def)
      from Cons.IH [OF this] obtain k where
        k: "trace s1 = trace ?s2" "ssl_replay_buffer s1 = ssl_replay_buffer ?s2"
           "num_timesteps s1 = num_timesteps ?s2 + int k * num_envs c"
           "length rest = length evs1 + k"
        by blast
      then have "num_timesteps s1 = num_timesteps s + int (Suc k) * num_envs c"
        "length (e # rest) = length evs1 + Suc k"
        by (simp_all add: store_transition_keeps algebra_simps)
      with k(1,2) show ?thesis
        by (auto simp: store_transition_keeps intro!: exI [of _ "Suc k"])
    qed
  qed
qed

lemma collect_rollouts_props:
  assumes "collect_rollouts c s evs = (r, s1, evs1)"
  shows "trace s1 = trace s \<and> ssl_replay_buffer s1 = ssl_replay_buffer s \<and>
   (\<exists>k. num_timesteps s1 = num_timesteps s + int k * num_envs c \<and>
        length evs = length evs1 + k \<and>
        ((\<exists>ts eps cont. r = RolloutReturn ts eps cont) \<longrightarrow> 0 < k))"
proof (cases "fst (train_freq c) > 0 \<and> \<not> (num_envs c > 1 \<and> snd (train_freq c) \<noteq> STEP)")
  case False
  with assms have "s1 = s" "evs1 = evs" "r = RolloutRaised AssertionError"
    by (auto simp: collect_rollouts_def split: if_splits)
  then show ?thesis by auto
next
  case True
  then have sc: "should_collect_more_steps (train_freq c) 0 0"
    by (auto simp: should_collect_more_steps_def split: TrainFrequencyUnit.splits)
  from True assms have "collect_loop c s 0 0 evs = (r, s1, evs1)"
    by (auto simp: collect_rollouts_def)
  from collect_loop_props [OF this] sc show ?thesis by auto
qed


lemma refresh_props:
  "num_timesteps (snd (refresh ext c s)) = num_timesteps s"
  "replay_buffer (snd (refresh ext c s)) = replay_buffer s"
  "trace (snd (refresh ext c s)) = trace s @ [Refresh (num_timesteps s)]"
  by (auto simp: refresh_def Let_def split: option.splits sum.splits prod.splits)

lemma train_phase_props:
  "num_timesteps (train_phase c ts s) = num_timesteps s"
  "ssl_replay_buffer (train_phase c ts s) = ssl_replay_buffer s"
  "\<exists>new. trace (train_phase c ts s) = trace s @ new \<and>
     (\<forall>ev \<in> set new. \<exists>kk g. ev = Train (num_timesteps s) kk g \<and>
         num_timesteps s > learning_starts c \<and> num_timesteps s > 0 \<and> g > 0)"
  by (auto simp: train_phase_def Let_def)

lemma refresh_due_True:
  "refresh_due c s = Inr True \<longleftrightarrow>
   pseudo_mode c \<and> ssl_freq c \<noteq> 0 \<and> num_timesteps s mod ssl_freq c = 0 \<and>
   num_timesteps s > learning_starts c div 2"
  by (auto simp: refresh_due_def)

lemma learn_body_props:
  assumes "learn_body ext c s evs = (st, s', evs')"
  shows "\<exists>k new. num_timesteps s' = num_timesteps s + int k * num_envs c \<and>
           length evs = length evs' + k \<and> (st = Continue \<longrightarrow> 0 < k) \<and>
           trace s' = trace s @ new \<and> (\<forall>ev \<in> set new. entry_ok c (num_timesteps s) ev)"
proof -
  obtain r s1 evs1 where cr: "collect_rollouts c s evs = (r, s1, evs1)"
    by (metis prod_cases3)
  from collect_rollouts_props [OF cr] obtain k where
    k: "trace s1 = trace s" "num_timesteps s1 = num_timesteps s + int k * num_envs c"
       "length evs = length evs1 + k" "(\<exists>ts eps cont. r = RolloutReturn ts eps cont) \<longrightarrow> 0 < k"
    by blast
  show ?thesis
  proof (cases r)
    case (RolloutRaised e)
    with assms cr k show ?thesis by (auto simp: learn_body_def)
  next
    case RolloutCut
    with assms cr k show ?thesis by (auto simp: learn_body_def)
  next
    case (RolloutReturn ts eps cont)
    with k have kpos: "0 < k" by simp
    show ?thesis
    proof (cases cont)
      case False
      with RolloutReturn assms cr k show ?thesis by (auto simp: learn_body_def)
    next
      case True
      show ?thesis
      proof (cases "refresh_due c s1")
        case (Inl e)
        with True RolloutReturn assms cr k show ?thesis by (auto simp: learn_body_def)
      next
        case (Inr due)
        define s2 where "s2 = (if due then snd (refresh ext c s1) else s1)"
        have n2: "num_timesteps s2 = num_timesteps s1"
          by (simp add: s2_def refresh_props)
        have t2: "trace s2 = trace s @ (if due then [Refresh (num_timesteps s1)] else [])"
          by (simp add: s2_def refresh_props k)
        have ok2: "due \<Longrightarrow> entry_ok c (num_timesteps s) (Refresh (num_timesteps s1))"
          using Inr refresh_due_True [of c s1] k(2) kpos by (auto intro!: exI [of _ k])
        from train_phase_props(3) [of c ts s2] obtain new where
          new: "trace (train_phase c ts s2) = trace s2 @ new"
            "\<forall>ev \<in> set new. \<exists>kk g. ev = Train (num_timesteps s2) kk g \<and>
               num_timesteps s2 > learning_starts c \<and> num_timesteps s2 > 0 \<and> g > 0"
          by blast
        have oknew: "\<forall>ev \<in> set new. entry_ok c (num_timesteps s) ev"
        proof
          fix ev assume "ev \<in> set new"
          with new(2) obtain kk g where "ev = Train (num_timesteps s2) kk g"
            "num_timesteps s2 > learning_starts c" "num_timesteps s2 > 0" "g > 0"
            by blast
          with n2 k(2) kpos show "entry_ok c (num_timesteps s) ev"
            by (auto intro!: exI [of _ k])
        qed
        have res: "(st = Continue \<and> s' = train_phase c ts s2 \<and> evs' = evs1) \<or>
                   ((\<exists>e. st = Failed e) \<and> s' = s2 \<and> evs' = evs1)"
          using assms cr RolloutReturn True Inr
          by (auto simp: learn_body_def s2_def split: if_splits prod.splits option.splits)
        then show ?thesis
        proof
          assume a: "st = Continue \<and> s' = train_phase c ts s2 \<and> evs' = evs1"
          then have "num_timesteps s' = num_timesteps s + int k * num_envs c"
            by (simp add: train_phase_props n2 k)
          moreover have "trace s' = trace s @ ((if due then [Refresh (num_timesteps s1)] else []) @ new)"
            using a new(1) t2 by simp
          moreover have "\<forall>ev \<in> set ((if due then [Refresh (num_timesteps s1)] else []) @ new).
                           entry_ok c (num_timesteps s) ev"
            using ok2 oknew by auto
          ultimately show ?thesis using a k(3) kpos by blast
        next
          assume a: "(\<exists>e. st = Failed e) \<and> s' = s2 \<and> evs' = evs1"
          then have "num_timesteps s' = num_timesteps s + int k * num_envs c"
            by (simp add: n2 k)
          moreover have "trace s' = trace s @ (if due then [Refresh (num_timesteps s1)] else [])"
            using a t2 by simp
          moreover have "\<forall>ev \<in> set (if due then [Refresh (num_timesteps s1)] else []).
                           entry_ok c (num_timesteps s) ev"
            using ok2 by auto
          ultimately show ?thesis using a k(3) by blast
        qed
      qed
    qed
  qed
qed

lemma learn_body_consumes:
  "learn_body ext c s evs = (Continue, s', evs') \<Longrightarrow> length evs' < length evs"
  using learn_body_props [of ext c s evs Continue s' evs'] by auto

lemma learn_loop_unfold:
  "learn_loop ext c total_timesteps s evs =
     (if num_timesteps s < total_timesteps
      then (case learn_body ext c s evs of
              (Continue, s', evs') \<Rightarrow> learn_loop ext c total_timesteps s' evs'
            | r \<Rightarrow> r)
      else (Finished, s, evs))"
proof (cases "learn_body ext c s evs")
  case (fields st s' evs')
  show ?thesis
  proof (cases "st = Continue")
    case True
    with fields learn_body_consumes [of ext c s evs s' evs'] show ?thesis
      by (subst learn_loop.simps) simp
  next
    case False
    with fields show ?thesis
      by (subst learn_loop.simps) (cases st; simp)
  qed
qed

lemma entry_ok_shift:
  "entry_ok c (n0 + int k * num_envs c) ev \<Longrightarrow> entry_ok c n0 ev"
proof (cases ev)
  case (Refresh n)
  assume "entry_ok c (n0 + int k * num_envs c) ev"
  with Refresh obtain j where "0 < j" "n = n0 + int k * num_envs c + int j * num_envs c"
    and rest: "pseudo_mode c" "ssl_freq c \<noteq> 0" "n mod ssl_freq c = 0" "n > learning_starts c div 2"
    by auto
  then have "0 < k + j" "n = n0 + int (k + j) * num_envs c"
    by (simp_all add: algebra_simps)
  with rest Refresh show ?thesis by auto
next
  case (Train n kk g)
  assume "entry_ok c (n0 + int k * num_envs c) ev"
  with Train obtain j where "0 < j" "n = n0 + int k * num_envs c + int j * num_envs c"
    and rest: "n > learning_starts c" "n > 0" "g > 0"
    by auto
  then have "0 < k + j" "n = n0 + int (k + j) * num_envs c"
    by (simp_all add: algebra_simps)
  with rest Train show ?thesis by auto
qed

lemma learn_loop_trace:
  "learn_loop ext c total_timesteps s evs = (st, s', evs') \<Longrightarrow>
   \<exists>new. trace s' = trace s @ new \<and> (\<forall>ev \<in> set new. entry_ok c (num_timesteps s) ev)"
proof (induction ext c total_timesteps s evs arbitrary: st s' evs' rule: learn_loop.induct)
  case (1 ext c total_timesteps s evs)
  show ?case
  proof (cases "num_timesteps s < total_timesteps")
    case False
    with "1.prems" have "s' = s" by (subst (asm) learn_loop.simps) simp
    then show ?thesis by simp
  next
    case True
    obtain st1 s1 evs1 where body: "learn_body ext c s evs = (st1, s1, evs1)"
      by (metis prod_cases3)
    from learn_body_props [OF body] obtain k new1 where
      b: "num_timesteps s1 = num_timesteps s + int k * num_envs c"
         "length evs = length evs1 + k" "st1 = Continue \<longrightarrow> 0 < k"
         "trace s1 = trace s @ new1" "\<forall>ev \<in> set new1. entry_ok c (num_timesteps s) ev"
      by blast
    show ?thesis
    proof (cases "st1 = Continue")
      case False
      with True body "1.prems" have "s' = s1"
        by (subst (asm) learn_loop.simps) (simp add: Let_def)
      with b show ?thesis by blast
    next
      case cont: True
      with b have shorter: "length evs1 < length evs" by simp
      with True body cont "1.prems"
      have rec: "learn_loop ext c total_timesteps s1 evs1 = (st, s', evs')"
        by (subst (asm) learn_loop.simps) (simp add: Let_def)
      have "\<exists>new. trace s' = trace s1 @ new \<and> (\<forall>ev \<in> set new. entry_ok c (num_timesteps s1) ev)"
        using "1.IH" [OF True refl] body cont shorter rec by auto
      then obtain new2 where
        n2: "trace s' = trace s1 @ new2" "\<forall>ev \<in> set new2. entry_ok c (num_timesteps s1) ev"
        by blast
      from n2(2) b(1) have "\<forall>ev \<in> set new2. entry_ok c (num_timesteps s) ev"
        using entry_ok_shift [of c "num_timesteps s" k] by auto
      with n2(1) b(4,5) have "trace s' = trace s @ (new1 @ new2) \<and>
         (\<forall>ev \<in> set (new1 @ new2). entry_ok c (num_timesteps s) ev)"
        by auto
      then show ?thesis by blast
    qed
  qed
qed

subsection \<open>Evaluating the refresh cycle on the concrete state\<close>


lemma first_occurrences_distinct: "distinct X \<Longrightarrow> first_occurrences X = [0..<length X]"
proof -
  assume d: "distinct X"
  have "\<forall>i \<in> set [0..<length X]. X ! i \<notin> set (take i X)"
  proof
    fix i assume "i \<in> set [0..<length X]"
    then have i: "i < length X" by simp
    show "X ! i \<notin> set (take i X)"
    proof
      assume "X ! i \<in> set (take i X)"
      then obtain j where "j < i" "take i X ! j = X ! i"
        by (auto simp: in_set_conv_nth)
      with i d show False
        by (simp add: nth_eq_iff_index_eq)
    qed
  qed
  then show ?thesis
    unfolding first_occurrences_def by (simp add: filter_id_conv)
qed

lemma take_rows_all: "take_rows X [0..<length X] = X"
  by (simp add: take_rows_def map_nth)

lemma X_prime_unique_dedup: "X_prime_unique U L = dedup_first (dedup_first U @ dedup_first L)"
  by (simp add: X_prime_unique_def Let_def unique_rows_eq)

lemma train_ind_dedup: "train_ind L = [0..<length (dedup_first L)]"
  by (simp add: train_ind_def unique_rows_eq)

lemma np_delete_prefix:
  "k \<le> length arr \<Longrightarrow> np_delete arr [0..<k] = Inr (drop k arr)"
proof -
  assume k: "k \<le> length arr"
  have "filter (\<lambda>i. i \<notin> set [0..<k]) [0..<length arr] = [k..<length arr]"
  proof -
    have "[0..<length arr] = [0..<k] @ [k..<length arr]"
      using k by (metis le_add_diff_inverse upt_add_eq_append zero_le)
    then have "filter (\<lambda>i. i \<notin> set [0..<k]) [0..<length arr]
         = filter (\<lambda>i. i \<notin> set [0..<k]) [0..<k] @ filter (\<lambda>i. i \<notin> set [0..<k]) [k..<length arr]"
      by (metis filter_append)
    also have "filter (\<lambda>i. i \<notin> set [0..<k]) [0..<k] = []" by simp
    also have "filter (\<lambda>i. i \<notin> set [0..<k]) [k..<length arr] = [k..<length arr]"
      by (simp add: filter_id_conv)
    finally show ?thesis by simp
  qed
  moreover have "map (\<lambda>i. arr ! i) [k..<length arr] = drop k arr"
    by (auto intro!: nth_equalityI)
  ultimately show ?thesis using k
    by (simp add: np_delete_def take_rows_def list_all_iff)
qed

lemma demo_features:
  "state_action demo_unlabeled = Inr [[2, 0, 0, 1, 0], [3, 0, 0, 0, 1]]"
  "state_action demo_labeled = Inr [[0, 1, 0, 0, 0], [1, 0, 1, 0, 0]]"
  by (simp_all add: state_action_def bind_err_def labels_to_onehot_def onehot_row_def
      demo_unlabeled_def demo_labeled_def demo_row_def eval_nat_numeral)

lemma demo_nodes:
  "X_prime_unique [[2, 0, 0, 1, 0], [3, 0, 0, 0, 1]] [[0, 1, 0, 0, 0], [1, 0, 1, 0, 0]]
     = [[2, 0, 0, 1, 0], [3, 0, 0, 0, 1], [0, 1, 0, 0, 0], [1, 0, 1, 0, 0]]"
  "train_ind [[0, 1, 0, 0, 0], [1, 0, 1, 0, 0]] = [0, 1]"
  "unique_ind [[2, 0, 0, 1, 0], [3, 0, 0, 0, 1::real]] = [0, 1]"
  "unique_ind [[0, 1, 0, 0, 0], [1, 0, 1, 0, 0::real]] = [0, 1]"
  "unique_ind [[2, 0, 0, 1, 0], [3, 0, 0, 0, 1], [0, 1, 0, 0, 0], [1, 0, 1, 0, 0::real]] = [0, 1, 2, 3]"
  by (simp_all add: X_prime_unique_dedup train_ind_dedup unique_ind_eq first_occurrences_distinct
      upt_conv_Cons)

lemma demo_compute:
  "refresh_compute demo_ext ''Laplace'' demo_labeled demo_unlabeled = Inr ([0, 1], [0, 0], 1 / 2)"
  apply (simp add: refresh_compute_def demo_features bind_err_def Let_def demo_nodes)
  apply (simp add: demo_nodes demo_ext_def demo_infer_def take_rows_def demo_labeled_def
      demo_unlabeled_def demo_row_def astype_int_def l2r_lookup_def upt_conv_Cons np_delete_def)
  done

lemma demo_collect:
  "collect_rollouts demo_config demo_state demo_tail
     = (RolloutReturn 1 0 True, demo_state4, [demo_step 5 0 0 (1 / 10)])"
  by (simp add: collect_rollouts_def demo_config_def demo_tail_def demo_state_def demo_state4_def
      should_collect_more_steps_def Let_def demo_step_def store_transition_def
      make_transition_def demo_unlabeled_def demo_row_def)

lemma demo_get_all:
  "get_all (replay_buffer demo_state4) = demo_labeled"
  "unlabeled_replay_buffer demo_state4 = Some (foldl add (new_store 4) demo_unlabeled)"
  "get_all (foldl add (new_store 4) demo_unlabeled) = demo_unlabeled"
  by code_simp+

lemma demo_pseudo_store:
  "get_all (extend_store (reset (new_store 4)) demo_unlabeled [0, 0])
     = [demo_row 2 2 0, (demo_row 3 3 1)\<lparr>reward := 0\<rparr>]"
  by code_simp

lemma demo_refresh:
  "refresh demo_ext demo_config demo_state4
     = (None, demo_state4\<lparr>ssl_replay_buffer :=
                 extend_store (reset (new_store 4)) demo_unlabeled [0, 0],
               trace := [Refresh 4]\<rparr>)"
proof -
  have "ssl_method demo_config = ''Laplace''" by (simp add: demo_config_def)
  moreover have "take_rows demo_unlabeled [0, Suc 0] = demo_unlabeled"
    by (simp add: take_rows_def demo_unlabeled_def)
  moreover have "ssl_replay_buffer demo_state4 = new_store 4" "trace demo_state4 = []"
    "num_timesteps demo_state4 = 4"
    by (simp_all add: demo_state4_def demo_state_def)
  ultimately show ?thesis
    by (simp add: refresh_def Let_def demo_get_all demo_compute)
qed

lemma demo_loop:
  "learn_loop demo_ext demo_config 4 demo_state demo_tail
     = (Finished,
        demo_state4\<lparr>ssl_replay_buffer :=
                      extend_store (reset (new_store 4)) demo_unlabeled [0, 0],
                    trace := [Refresh 4, Train 4 2 1]\<rparr>,
        [demo_step 5 0 0 (1 / 10)])"
proof -
  have n: "num_timesteps demo_state = 3" "num_timesteps demo_state4 = 4"
    by (simp_all add: demo_state4_def demo_state_def)
  have cfg: "learning_starts demo_config = 0" "gradient_steps demo_config = 1"
    by (simp_all add: demo_config_def)
  have due: "refresh_due demo_config demo_state4 = Inr True"
    by (simp add: refresh_due_def demo_config_def n)
  have sz: "size_store (replay_buffer demo_state4) = 2"
    by code_simp
  have body: "learn_body demo_ext demo_config demo_state demo_tail
     = (Continue,
        demo_state4\<lparr>ssl_replay_buffer :=
                      extend_store (reset (new_store 4)) demo_unlabeled [0, 0],
                    trace := [Refresh 4, Train 4 2 1]\<rparr>,
        [demo_step 5 0 0 (1 / 10)])"
    by (simp add: learn_body_def demo_collect due demo_refresh train_phase_def n sz Let_def
        cfg)
  show ?thesis
    by (subst learn_loop_unfold, simp add: n body, subst learn_loop_unfold, simp add: n)
qed

subsection \<open>When the refresh runs\<close>

lemma rollout_advances:
  assumes cr: "collect_rollouts c s evs = (RolloutReturn ts eps cont, s1, evs1)"
  shows "\<exists>k>0. num_timesteps s1 = num_timesteps s + int k * num_envs c"
proof -
  from collect_rollouts_props [OF cr] obtain k where
    "num_timesteps s1 = num_timesteps s + int k * num_envs c" "0 < k"
    by blast
  then show ?thesis by blast
qed


lemma loop_refresh_entries:
  assumes run: "learn_loop ext c total_timesteps s evs = (st, s', evs')"
    and mem: "Refresh n \<in> set (drop (length (trace s)) (trace s'))"
  shows "pseudo_mode c \<and> ssl_freq c \<noteq> 0 \<and> n mod ssl_freq c = 0 \<and>
           n > learning_starts c div 2 \<and>
           (\<exists>k>0. n = num_timesteps s + int k * num_envs c)"
proof -
  from learn_loop_trace [OF run] obtain new where
    new: "trace s' = trace s @ new" "\<forall>ev \<in> set new. entry_ok c (num_timesteps s) ev"
    by blast
  from mem new(1) have "Refresh n \<in> set new" by simp
  with new(2) have "entry_ok c (num_timesteps s) (Refresh n)" by blast
  then show ?thesis by simp
qed

lemma loop_train_entries:
  assumes run: "learn_loop ext c total_timesteps s evs = (st, s', evs')"
    and mem: "Train n k g \<in> set (drop (length (trace s)) (trace s'))"
  shows "n > learning_starts c \<and> n > 0 \<and> g > 0"
proof -
  from learn_loop_trace [OF run] obtain new where
    new: "trace s' = trace s @ new" "\<forall>ev \<in> set new. entry_ok c (num_timesteps s) ev"
    by blast
  from mem new(1) have "Train n k g \<in> set new" by simp
  with new(2) have "entry_ok c (num_timesteps s) (Train n k g)" by blast
  then show ?thesis by simp
qed

lemma learn_body_trace_exact:
  assumes cr: "collect_rollouts c s evs = (RolloutReturn ts eps True, s1, evs1)"
    and due: "refresh_due c s1 = Inr due"
  shows "\<exists>tr. trace (fst (snd (learn_body ext c s evs)))
               = trace s @ (if due then [Refresh (num_timesteps s1)] else []) @ tr \<and>
             (\<forall>ev \<in> set tr. \<exists>n k g. ev = Train n k g)"
proof -
  from collect_rollouts_props [OF cr] have t1: "trace s1 = trace s" by simp
  define s2 where "s2 = (if due then snd (refresh ext c s1) else s1)"
  have t2: "trace s2 = trace s @ (if due then [Refresh (num_timesteps s1)] else [])"
    by (simp add: s2_def refresh_props t1)
  from train_phase_props(3) [of c ts s2] obtain new where
    new: "trace (train_phase c ts s2) = trace s2 @ new"
      "\<forall>ev \<in> set new. \<exists>kk g. ev = Train (num_timesteps s2) kk g \<and>
         num_timesteps s2 > learning_starts c \<and> num_timesteps s2 > 0 \<and> g > 0"
    by blast
  have "fst (snd (learn_body ext c s evs)) = train_phase c ts s2 \<or>
        fst (snd (learn_body ext c s evs)) = s2"
    using cr due
    by (auto simp: learn_body_def s2_def split: if_splits prod.splits option.splits)
  then show ?thesis
  proof
    assume "fst (snd (learn_body ext c s evs)) = train_phase c ts s2"
    with new t2 have "trace (fst (snd (learn_body ext c s evs)))
        = trace s @ (if due then [Refresh (num_timesteps s1)] else []) @ new"
      by simp
    moreover from new(2) have "\<forall>ev \<in> set new. \<exists>n k g. ev = Train n k g" by blast
    ultimately show ?thesis by blast
  next
    assume "fst (snd (learn_body ext c s evs)) = s2"
    with t2 have "trace (fst (snd (learn_body ext c s evs)))
        = trace s @ (if due then [Refresh (num_timesteps s1)] else []) @ []"
      by simp
    then show ?thesis by (metis empty_iff list.set(1))
  qed
qed

lemma learn_body_refresh_iff:
  assumes cr: "collect_rollouts c s evs = (RolloutReturn ts eps True, s1, evs1)"
  shows "Refresh (num_timesteps s1)
           \<in> set (drop (length (trace s)) (trace (fst (snd (learn_body ext c s evs)))))
         \<longleftrightarrow> pseudo_mode c \<and> ssl_freq c \<noteq> 0 \<and> num_timesteps s1 mod ssl_freq c = 0 \<and>
             num_timesteps s1 > learning_starts c div 2"
proof (cases "refresh_due c s1")
  case (Inl e)
  then have z: "pseudo_mode c \<and> ssl_freq c = 0"
    by (auto simp: refresh_due_def split: if_splits)
  from collect_rollouts_props [OF cr] have t1: "trace s1 = trace s" by simp
  from cr Inl have "fst (snd (learn_body ext c s evs)) = s1"
    by (simp add: learn_body_def)
  with t1 z show ?thesis by simp
next
  case (Inr due)
  from learn_body_trace_exact [OF cr Inr, of ext] obtain tr where
    tr: "trace (fst (snd (learn_body ext c s evs)))
               = trace s @ (if due then [Refresh (num_timesteps s1)] else []) @ tr"
        "\<forall>ev \<in> set tr. \<exists>n k g. ev = Train n k g"
    by blast
  from tr(2) have "Refresh (num_timesteps s1) \<notin> set tr" by auto
  with tr(1) have "Refresh (num_timesteps s1)
           \<in> set (drop (length (trace s)) (trace (fst (snd (learn_body ext c s evs))))) \<longleftrightarrow> due"
    by simp
  also have "due \<longleftrightarrow> refresh_due c s1 = Inr True" using Inr by simp
  finally show ?thesis by (simp add: refresh_due_True)
qed


lemma loop_never:
  assumes run: "learn_loop ext c total_timesteps s evs = (st, s', evs')"
      and never: "\<forall>k>0. (num_timesteps s + int k * num_envs c) mod ssl_freq c \<noteq> 0"
  shows "\<forall>n. Refresh n \<notin> set (drop (length (trace s)) (trace s'))"
proof (intro allI notI)
  fix n assume mem: "Refresh n \<in> set (drop (length (trace s)) (trace s'))"
  have z: "n mod ssl_freq c = 0"
    using loop_refresh_entries [OF run mem] by (elim conjE)
  have "\<exists>k>0. n = num_timesteps s + int k * num_envs c"
    using loop_refresh_entries [OF run mem] by (elim conjE)
  then obtain k where k: "0 < k" "n = num_timesteps s + int k * num_envs c"
    by (elim exE conjE)
  have "(num_timesteps s + int k * num_envs c) mod ssl_freq c = 0"
    using z unfolding k(2) .
  moreover have "(num_timesteps s + int k * num_envs c) mod ssl_freq c \<noteq> 0"
    by (rule never [rule_format, OF k(1)])
  ultimately show False by (rule notE [rotated])
qed

text \<open>
  Claim C10. After a rollout that returns with \<open>continue_training\<close>, the step count has
  advanced by a positive multiple of the number of environments, and the refresh branch
  is entered exactly when pseudo mode is on, the step count is divisible by \<open>ssl_freq\<close>
  and it exceeds \<open>learning_starts div 2\<close>. Over a whole run of the loop, every refresh
  happens at such a count, so when no count reachable from the start is divisible by
  \<open>ssl_freq\<close>, the run has no refresh at all.
\<close>

theorem refresh_cadence:
  "(collect_rollouts c s evs = (RolloutReturn ts eps True, s1, evs1) \<longrightarrow>
      (\<exists>k>0. num_timesteps s1 = num_timesteps s + int k * num_envs c) \<and>
      (Refresh (num_timesteps s1)
           \<in> set (drop (length (trace s)) (trace (fst (snd (learn_body ext c s evs)))))
         \<longleftrightarrow> pseudo_mode c \<and> ssl_freq c \<noteq> 0 \<and> num_timesteps s1 mod ssl_freq c = 0 \<and>
             num_timesteps s1 > learning_starts c div 2)) \<and>
   (learn_loop ext c total_timesteps s evs = (st, s', evs') \<longrightarrow>
      (\<forall>n. Refresh n \<in> set (drop (length (trace s)) (trace s')) \<longrightarrow>
           pseudo_mode c \<and> ssl_freq c \<noteq> 0 \<and> n mod ssl_freq c = 0 \<and>
           n > learning_starts c div 2 \<and>
           (\<exists>k>0. n = num_timesteps s + int k * num_envs c)) \<and>
      ((\<forall>k>0. (num_timesteps s + int k * num_envs c) mod ssl_freq c \<noteq> 0) \<longrightarrow>
           (\<forall>n. Refresh n \<notin> set (drop (length (trace s)) (trace s')))))"
proof -
  have body: "(\<exists>k>0. num_timesteps s1 = num_timesteps s + int k * num_envs c) \<and>
      (Refresh (num_timesteps s1)
           \<in> set (drop (length (trace s)) (trace (fst (snd (learn_body ext c s evs)))))
         \<longleftrightarrow> pseudo_mode c \<and> ssl_freq c \<noteq> 0 \<and> num_timesteps s1 mod ssl_freq c = 0 \<and>
             num_timesteps s1 > learning_starts c div 2)"
    if cr: "collect_rollouts c s evs = (RolloutReturn ts eps True, s1, evs1)"
    by (rule conjI [OF rollout_advances [OF cr] learn_body_refresh_iff [OF cr]])
  have loop1: "\<forall>n. Refresh n \<in> set (drop (length (trace s)) (trace s')) \<longrightarrow>
           pseudo_mode c \<and> ssl_freq c \<noteq> 0 \<and> n mod ssl_freq c = 0 \<and>
           n > learning_starts c div 2 \<and>
           (\<exists>k>0. n = num_timesteps s + int k * num_envs c)"
    if run: "learn_loop ext c total_timesteps s evs = (st, s', evs')"
    by (intro allI impI) (rule loop_refresh_entries [OF run])
  show ?thesis
  proof (rule conjI)
    show "collect_rollouts c s evs = (RolloutReturn ts eps True, s1, evs1) \<longrightarrow>
      (\<exists>k>0. num_timesteps s1 = num_timesteps s + int k * num_envs c) \<and>
      (Refresh (num_timesteps s1)
           \<in> set (drop (length (trace s)) (trace (fst (snd (learn_body ext c s evs)))))
         \<longleftrightarrow> pseudo_mode c \<and> ssl_freq c \<noteq> 0 \<and> num_timesteps s1 mod ssl_freq c = 0 \<and>
             num_timesteps s1 > learning_starts c div 2)"
      by (rule impI) (rule body)
  next
    show "learn_loop ext c total_timesteps s evs = (st, s', evs') \<longrightarrow>
      (\<forall>n. Refresh n \<in> set (drop (length (trace s)) (trace s')) \<longrightarrow>
           pseudo_mode c \<and> ssl_freq c \<noteq> 0 \<and> n mod ssl_freq c = 0 \<and>
           n > learning_starts c div 2 \<and>
           (\<exists>k>0. n = num_timesteps s + int k * num_envs c)) \<and>
      ((\<forall>k>0. (num_timesteps s + int k * num_envs c) mod ssl_freq c \<noteq> 0) \<longrightarrow>
           (\<forall>n. Refresh n \<notin> set (drop (length (trace s)) (trace s'))))"
    proof (intro impI conjI)
      assume run: "learn_loop ext c total_timesteps s evs = (st, s', evs')"
      show "\<forall>n. Refresh n \<in> set (drop (length (trace s)) (trace s')) \<longrightarrow>
           pseudo_mode c \<and> ssl_freq c \<noteq> 0 \<and> n mod ssl_freq c = 0 \<and>
           n > learning_starts c div 2 \<and>
           (\<exists>k>0. n = num_timesteps s + int k * num_envs c)"
        by (rule loop1 [OF run])
      assume "\<forall>k>0. (num_timesteps s + int k * num_envs c) mod ssl_freq c \<noteq> 0"
      with run show "\<forall>n. Refresh n \<notin> set (drop (length (trace s)) (trace s'))"
        by (rule loop_never)
    qed
  qed
qed


theorem refresh_cadence_witness:
  "collect_rollouts demo_config demo_state demo_tail
     = (RolloutReturn 1 0 True, demo_state4, [demo_step 5 0 0 (1 / 10)]) \<and>
   num_timesteps demo_state4 = 4 \<and> ssl_freq demo_config = 4 \<and>
   Refresh 4 \<in> set (drop (length (trace demo_state))
                    (trace (fst (snd (learn_body demo_ext demo_config demo_state demo_tail)))))"
proof -
  have f: "num_timesteps demo_state4 = 4" "ssl_freq demo_config = 4" "pseudo_mode demo_config"
    "learning_starts demo_config = 0"
    by (simp_all add: demo_state4_def demo_state_def demo_config_def)
  have cond: "pseudo_mode demo_config \<and> ssl_freq demo_config \<noteq> 0 \<and>
      num_timesteps demo_state4 mod ssl_freq demo_config = 0 \<and>
      num_timesteps demo_state4 > learning_starts demo_config div 2"
    by (simp add: f)
  note th = refresh_cadence [where c = demo_config and s = demo_state and evs = demo_tail
      and ts = 1 and eps = 0 and ?s1.0 = demo_state4 and ?evs1.0 = "[demo_step 5 0 0 (1 / 10)]"
      and ext = demo_ext, THEN conjunct1, rule_format, OF demo_collect, THEN conjunct2]
  from th cond have "Refresh (num_timesteps demo_state4)
      \<in> set (drop (length (trace demo_state))
                (trace (fst (snd (learn_body demo_ext demo_config demo_state demo_tail)))))"
    by (rule iffD2)
  with demo_collect f show ?thesis by simp
qed

subsection \<open>Training calls\<close>

lemma starved_trace:
  "trace (fst (snd (learn_loop demo_ext starved_config 2 (setup_model starved_config [0]) demo_steps)))
     = [Train 2 0 1]"
  by code_simp

lemma starved_facts:
  "trace (setup_model starved_config [0]) = []"
  "learning_starts starved_config = 1"
  by (simp_all add: setup_model_def starved_config_def)







text \<open>
  Claim C7, as amended. Every call of \<^verbatim>\<open>train\<close> issued during a run of the loop happens
  at a step count above \<open>learning_starts\<close> (and above zero), with a positive number of
  gradient steps. The test of line 518 reads the step count, not the size of the
  labeled store.
\<close>

theorem train_only_after_learning_starts:
  "learn_loop ext c total_timesteps s evs = (st, s', evs') \<Longrightarrow>
   Train n k g \<in> set (drop (length (trace s)) (trace s')) \<Longrightarrow>
   n > learning_starts c \<and> n > 0 \<and> g > 0"
  by (rule loop_train_entries)

theorem train_only_after_learning_starts_witness:
  "Train 2 0 1 \<in> set (drop (length (trace (setup_model starved_config [0])))
       (trace (fst (snd (learn_loop demo_ext starved_config 2 (setup_model starved_config [0]) demo_steps))))) \<and>
   (2::int) > learning_starts starved_config \<and> (2::int) > 0 \<and> (1::int) > 0"
proof -
  have mem: "Train 2 0 1 \<in> set (drop (length (trace (setup_model starved_config [0])))
       (trace (fst (snd (learn_loop demo_ext starved_config 2 (setup_model starved_config [0]) demo_steps)))))"
    by (simp add: starved_trace starved_facts)
  have run: "learn_loop demo_ext starved_config 2 (setup_model starved_config [0]) demo_steps
     = (fst (learn_loop demo_ext starved_config 2 (setup_model starved_config [0]) demo_steps),
        fst (snd (learn_loop demo_ext starved_config 2 (setup_model starved_config [0]) demo_steps)),
        snd (snd (learn_loop demo_ext starved_config 2 (setup_model starved_config [0]) demo_steps)))"
    by simp
  from train_only_after_learning_starts [OF run mem] mem show ?thesis by simp
qed

text \<open>
  The claim as stated fails: with \<open>p = 0\<close> and \<open>learning_starts = 1\<close>, the second pass
  calls \<^verbatim>\<open>train\<close> while the labeled store holds nothing.
\<close>

theorem train_with_empty_labeled_store:
  "trace (fst (snd (learn_loop demo_ext starved_config 2 (setup_model starved_config [0]) demo_steps)))
     = [Train 2 0 1] \<and>
   \<not> int 0 > learning_starts starved_config"
  by (simp add: starved_trace starved_facts)

subsection \<open>Construction checks nothing\<close>

text \<open>
  The claim C6 as stated fails: a probability of 2, a cadence of 0 and an unknown method
  name are accepted by the constructor.
\<close>

theorem init_accepts_invalid_configuration:
  "init invalid_config = Inr invalid_config \<and>
   \<not> (0 \<le> prob_p invalid_config \<and> prob_p invalid_config \<le> 1) \<and>
   \<not> 0 < ssl_freq invalid_config"
  by (simp add: init_def invalid_config_def)

text \<open>
  Claim C6, as amended. The constructor never fails and stores its arguments as they
  are. A cadence of zero shows only at the cadence test after a rollout, as a
  \<^verbatim>\<open>ZeroDivisionError\<close>, and only in pseudo mode; outside pseudo mode the test is never
  evaluated.
\<close>

theorem init_stores_unchecked:
  "init args = Inr args \<and>
   (pseudo_mode args \<and> ssl_freq args = 0 \<longrightarrow> refresh_due args s = Inl ZeroDivisionError) \<and>
   (\<not> pseudo_mode args \<longrightarrow> refresh_due args s = Inr False)"
  by (simp add: init_def refresh_due_def)

theorem init_stores_unchecked_witness:
  "pseudo_mode invalid_config \<and> ssl_freq invalid_config = 0 \<and>
   init invalid_config = Inr invalid_config \<and>
   refresh_due invalid_config demo_state = Inl ZeroDivisionError"
  using init_stores_unchecked [of invalid_config demo_state]
  by (simp add: invalid_config_def demo_config_def)



lemma size_store_reset: "size_store (reset b) = 0" "get_all (reset b) = []"
  by (simp_all add: size_store_def reset_def get_all_def)

lemma refresh_failed_store:
  "refresh ext c s = (Some e, s2) \<Longrightarrow> ssl_replay_buffer s2 = reset (ssl_replay_buffer s)"
  by (auto simp: refresh_def Let_def split: option.splits sum.splits prod.splits)

subsection \<open>A refresh without unlabeled data\<close>












subsection \<open>A failing refresh\<close>

lemma failing_compute:
  "refresh_compute failing_ext ''Laplace'' demo_labeled demo_unlabeled
     = Inl (Raised ''NumericalInstabilityError'')"
  apply (simp add: refresh_compute_def demo_features bind_err_def Let_def demo_nodes)
  apply (simp add: demo_nodes failing_ext_def demo_ext_def)
  done

lemma failing_refresh:
  "refresh failing_ext demo_config demo_state4
     = (Some (Raised ''NumericalInstabilityError''),
        demo_state4\<lparr>ssl_replay_buffer := reset (new_store 4), trace := [Refresh 4]\<rparr>)"
proof -
  have "ssl_method demo_config = ''Laplace''" by (simp add: demo_config_def)
  moreover have "ssl_replay_buffer demo_state4 = new_store 4" "trace demo_state4 = []"
    "num_timesteps demo_state4 = 4"
    by (simp_all add: demo_state4_def demo_state_def)
  ultimately show ?thesis
    by (simp add: refresh_def Let_def demo_get_all failing_compute)
qed

lemma demo_due: "refresh_due demo_config demo_state4 = Inr True"
  by (simp add: refresh_due_def demo_config_def demo_state4_def demo_state_def)

lemma failing_loop:
  "learn_loop failing_ext demo_config 5 demo_state demo_tail
     = (Failed (Raised ''NumericalInstabilityError''),
        demo_state4\<lparr>ssl_replay_buffer := reset (new_store 4), trace := [Refresh 4]\<rparr>,
        [demo_step 5 0 0 (1 / 10)])"
proof -
  have n: "num_timesteps demo_state = 3"
    by (simp add: demo_state_def)
  have body: "learn_body failing_ext demo_config demo_state demo_tail
     = (Failed (Raised ''NumericalInstabilityError''),
        demo_state4\<lparr>ssl_replay_buffer := reset (new_store 4), trace := [Refresh 4]\<rparr>,
        [demo_step 5 0 0 (1 / 10)])"
    by (simp add: learn_body_def demo_collect demo_due failing_refresh)
  show ?thesis
    by (subst learn_loop_unfold) (simp add: n body)
qed

text \<open>
  Claim C3, as amended. When the refresh cycle of a pass raises, the error is the result
  of \<^verbatim>\<open>learn\<close>: the loop ends there, with no call of \<^verbatim>\<open>train\<close> and no further rollout.
  The pseudo store is left empty by the clear at the start of the cycle, never partly
  filled, and the trace gains the refresh marker only.
\<close>

theorem refresh_failure_propagates:
  assumes budget: "num_timesteps s < total_timesteps"
    and cr: "collect_rollouts c s evs = (RolloutReturn ts eps True, s1, evs1)"
    and due: "refresh_due c s1 = Inr True"
    and fails: "refresh ext c s1 = (Some e, s2)"
  shows "learn_loop ext c total_timesteps s evs = (Failed e, s2, evs1) \<and>
         size_store (ssl_replay_buffer s2) = 0 \<and> get_all (ssl_replay_buffer s2) = [] \<and>
         trace s2 = trace s @ [Refresh (num_timesteps s1)]"
proof -
  have body: "learn_body ext c s evs = (Failed e, s2, evs1)"
    by (simp add: learn_body_def cr due fails)
  have loop: "learn_loop ext c total_timesteps s evs = (Failed e, s2, evs1)"
    by (subst learn_loop_unfold) (simp add: budget body)
  from refresh_failed_store [OF fails]
  have store: "size_store (ssl_replay_buffer s2) = 0" "get_all (ssl_replay_buffer s2) = []"
    by (simp_all add: size_store_reset)
  from collect_rollouts_props [OF cr] have t1: "trace s1 = trace s" by simp
  from refresh_props(3) [of ext c s1] fails t1
  have tr: "trace s2 = trace s @ [Refresh (num_timesteps s1)]" by simp
  from loop store tr show ?thesis by simp
qed

theorem refresh_failure_propagates_witness:
  "num_timesteps demo_state < 5 \<and>
   collect_rollouts demo_config demo_state demo_tail
     = (RolloutReturn 1 0 True, demo_state4, [demo_step 5 0 0 (1 / 10)]) \<and>
   refresh_due demo_config demo_state4 = Inr True \<and>
   fst (refresh failing_ext demo_config demo_state4) = Some (Raised ''NumericalInstabilityError'') \<and>
   fst (learn_loop failing_ext demo_config 5 demo_state demo_tail)
     = Failed (Raised ''NumericalInstabilityError'') \<and>
   size_store (ssl_replay_buffer (fst (snd (learn_loop failing_ext demo_config 5 demo_state demo_tail)))) = 0"
proof -
  have budget: "num_timesteps demo_state < 5" by (simp add: demo_state_def)
  from refresh_failure_propagates [OF budget demo_collect demo_due failing_refresh]
    budget demo_collect demo_due failing_refresh
  show ?thesis by simp
qed

text \<open>
  The claim C3 as stated fails: an engine that reports a singular system ends the run
  at step 4 of a budget of 5, with a recorded environment step left unused.
\<close>

theorem refresh_failure_ends_learn:
  "fst (learn_loop failing_ext demo_config 5 demo_state demo_tail)
     = Failed (Raised ''NumericalInstabilityError'') \<and>
   num_timesteps (fst (snd (learn_loop failing_ext demo_config 5 demo_state demo_tail))) = 4 \<and>
   snd (snd (learn_loop failing_ext demo_config 5 demo_state demo_tail))
     = [demo_step 5 0 0 (1 / 10)]"
  by (simp add: failing_loop demo_state4_def)

subsection \<open>Seeds and pseudo-rewards on the concrete state\<close>

text \<open>
  Claim C1 at a concrete input. With two labeled and two unlabeled transitions, all
  with different features, the seed indices are \<open>[0, 1]\<close>, and the nodes at these
  places are the features of the two unlabeled transitions.
\<close>

theorem seed_indices_select_unlabeled_nodes:
  "state_action demo_unlabeled = Inr [[2, 0, 0, 1, 0], [3, 0, 0, 0, 1]] \<and>
   state_action demo_labeled = Inr [[0, 1, 0, 0, 0], [1, 0, 1, 0, 0]] \<and>
   train_ind [[0, 1, 0, 0, 0], [1, 0, 1, 0, 0]] = [0, 1] \<and>
   take_rows (X_prime_unique [[2, 0, 0, 1, 0], [3, 0, 0, 0, 1]] [[0, 1, 0, 0, 0], [1, 0, 1, 0, 0]])
             (train_ind [[0, 1, 0, 0, 0], [1, 0, 1, 0, 0]])
     = [[2, 0, 0, 1, 0], [3, 0, 0, 0, 1]]"
  by (simp add: demo_features demo_nodes take_rows_def)

text \<open>
  Claim C2 at the same input. The pseudo store receives the unlabeled transition with
  observation \<open>[3]\<close> with reward 0, while its node, the second one, is predicted label 1,
  which the label-to-reward dictionary sends to reward 1.
\<close>

theorem pseudo_rewards_misaligned:
  "get_all (ssl_replay_buffer (fst (snd (learn_loop demo_ext demo_config 4 demo_state demo_tail))))
     = [demo_row 2 2 0, (demo_row 3 3 1)\<lparr>reward := 0\<rparr>] \<and>
   X_prime_unique [[2, 0, 0, 1, 0], [3, 0, 0, 0, 1]] [[0, 1, 0, 0, 0], [1, 0, 1, 0, 0]] ! 1
     = observation (demo_row 3 3 1) @ onehot_spec 4 (action (demo_row 3 3 1)) \<and>
   infer_rewards_SSL demo_ext ''Laplace''
       (X_prime_unique [[2, 0, 0, 1, 0], [3, 0, 0, 0, 1]] [[0, 1, 0, 0, 0], [1, 0, 1, 0, 0]])
       [0, 1] (train_ind [[0, 1, 0, 0, 0], [1, 0, 1, 0, 0]])
     = Inr [0, 1, 0, 0] \<and>
   l2r_lookup [(0, 0), (1, 1)] 1 = Inr 1"
proof (intro conjI)
  show "get_all (ssl_replay_buffer (fst (snd (learn_loop demo_ext demo_config 4 demo_state demo_tail))))
     = [demo_row 2 2 0, (demo_row 3 3 1)\<lparr>reward := 0\<rparr>]"
    by (simp add: demo_loop demo_pseudo_store)
  show "X_prime_unique [[2, 0, 0, 1, 0], [3, 0, 0, 0, 1]] [[0, 1, 0, 0, 0], [1, 0, 1, 0, 0]] ! 1
     = observation (demo_row 3 3 1) @ onehot_spec 4 (action (demo_row 3 3 1))"
    by (simp add: demo_nodes demo_row_def onehot_spec_def upt_conv_Cons)
  show "infer_rewards_SSL demo_ext ''Laplace''
       (X_prime_unique [[2, 0, 0, 1, 0], [3, 0, 0, 0, 1]] [[0, 1, 0, 0, 0], [1, 0, 1, 0, 0]])
       [0, 1] (train_ind [[0, 1, 0, 0, 0], [1, 0, 1, 0, 0]])
     = Inr [0, 1, 0, 0]"
    by (simp add: demo_nodes demo_ext_def demo_infer_def upt_conv_Cons)
  show "l2r_lookup [(0, 0), (1, 1)] 1 = Inr 1"
    by (simp add: l2r_lookup_def)
qed

subsection \<open>The concrete state is reached by the loop\<close>

lemma demo_state_reached:
  "fst (snd (learn_loop demo_ext demo_config 3 (setup_model demo_config [0]) demo_steps))
     = demo_state\<lparr>trace := [Train 1 1 1, Train 2 2 1, Train 3 2 1]\<rparr>"
  "snd (snd (learn_loop demo_ext demo_config 3 (setup_model demo_config [0]) demo_steps))
     = demo_tail"
  by code_simp+

end
